theory Spec2Isabelle
  imports Main
begin

section \<open>The side panel provider of \<^verbatim>\<open>src/extension.ts\<close>\<close>

text \<open>
  The extension is one class, \<^verbatim>\<open>ChatGPTViewProvider\<close>, whose methods run on the single
  JavaScript thread of the extension host. Every method is embedded as a function from the
  provider's state to its new state. The one asynchronous method,
  \<^verbatim>\<open>sendMessageAndGetResponse\<close>, is cut at its \<^verbatim>\<open>await\<close>: the part before it, the
  \<^verbatim>\<open>onProgress\<close> callback, the continuation after the promise is fulfilled and the
  \<^verbatim>\<open>catch\<close> block are four functions, and the call that is in flight is a value
  (\<open>request\<close>) holding what the closure captured.
\<close>

subsection \<open>Data\<close>

datatype WorkingState = Idle | Asking

record AuthInfo =
  mode :: "string option"
  apiKey :: "string option"
  accessToken :: "string option"
  proxyUrl :: "string option"

text \<open>All three keys of \<^verbatim>\<open>Settings\<close> are optional in the source; \<open>None\<close> is a key that
  is absent (or \<^verbatim>\<open>undefined\<close>).\<close>

record Settings =
  selectedInsideCodeblock :: "bool option"
  keepConversation :: "bool option"
  timeoutLength :: "int option"

text \<open>The two backends of the \<^verbatim>\<open>chatgpt\<close> package, with the options they are built from.\<close>

datatype backend =
    ChatGPTAPI string
  | ChatGPTUnofficialProxyAPI string string

text \<open>The object stored in \<^verbatim>\<open>_conversation\<close> and spread into the options of the next
  call.\<close>

record ConversationIds =
  conversationId :: "string option"
  parentMessageId :: string

text \<open>What \<^verbatim>\<open>sendMessage\<close> resolves to, and what \<^verbatim>\<open>onProgress\<close> receives.\<close>

record ChatMessage =
  res_text :: string
  res_conversationId :: "string option"
  res_id :: string

datatype message =
    SetWorkingState WorkingState
  | SetPrompt "string option"
  | AddResponse string

text \<open>What the provider does to its view: \<^verbatim>\<open>webview.postMessage\<close> and \<^verbatim>\<open>show\<close>.\<close>

datatype ui_effect = PostMessage message | ShowView

record WebviewView =
  visible :: bool

text \<open>
  The fields of the class, under their names without the underscore. Two components are not
  fields of the class but the part of its environment it acts on: \<open>aborted\<close>, the set of
  \<^verbatim>\<open>AbortController\<close>s (named by numbers) whose signal has fired, and \<open>webviewLog\<close>, what
  was done to the view, oldest first. \<^verbatim>\<open>null\<close> and \<^verbatim>\<open>undefined\<close> are both \<open>None\<close>: the
  source only tests these fields for truthiness.
\<close>

record provider =
  view :: "WebviewView option"
  chatGPTAPI :: "backend option"
  conversation :: "ConversationIds option"
  abortController :: nat
  response :: "string option"
  prompt :: "string option"
  fullPrompt :: "string option"
  currentMessageNumber :: nat
  workingState :: WorkingState
  settings :: Settings
  authInfo :: "AuthInfo option"
  aborted :: "nat set"
  webviewLog :: "ui_effect list"

text \<open>The call of \<^verbatim>\<open>sendMessage\<close> in flight: its arguments, the constant
  \<^verbatim>\<open>currentMessageNumber\<close> the closure captured and the local variable \<^verbatim>\<open>response\<close>
  that \<^verbatim>\<open>onProgress\<close> and the \<^verbatim>\<open>catch\<close> block share.\<close>

record request =
  req_api :: backend
  req_prompt :: string
  req_timeoutMs :: int
  req_abortSignal :: nat
  req_conversation :: "ConversationIds option"
  req_messageNumber :: nat
  req_response :: string

subsection \<open>JavaScript truthiness\<close>

definition truthy_string :: "string option \<Rightarrow> bool" where
  "truthy_string s = (case s of None \<Rightarrow> False | Some t \<Rightarrow> t \<noteq> [])"

definition truthy_bool :: "bool option \<Rightarrow> bool" where
  "truthy_bool b = (case b of None \<Rightarrow> False | Some v \<Rightarrow> v)"

text \<open>\<^verbatim>\<open>x || d\<close> on a boolean and on a number (\<^verbatim>\<open>0\<close> is falsy).\<close>

definition or_false :: "bool option \<Rightarrow> bool" where
  "or_false b = (case b of None \<Rightarrow> False | Some v \<Rightarrow> v)"

definition or_number :: "int option \<Rightarrow> int \<Rightarrow> int" where
  "or_number n d = (case n of None \<Rightarrow> d | Some v \<Rightarrow> if v = 0 then d else v)"

subsection \<open>The constructor and the small methods\<close>

definition init_provider :: provider where
  "init_provider =
     \<lparr> view = None, chatGPTAPI = None, conversation = None, abortController = 0,
       response = None, prompt = None, fullPrompt = None, currentMessageNumber = 0,
       workingState = Idle,
       settings = \<lparr> selectedInsideCodeblock = Some False, keepConversation = Some True,
                    timeoutLength = Some 60 \<rparr>,
       authInfo = None, aborted = {}, webviewLog = [] \<rparr>"

text \<open>\<^verbatim>\<open>this._view?.webview.postMessage(m)\<close>\<close>

definition postMessage :: "message \<Rightarrow> provider \<Rightarrow> provider" where
  "postMessage m p =
     (case view p of
        None \<Rightarrow> p
      | Some v \<Rightarrow> p\<lparr>webviewLog := webviewLog p @ [PostMessage m]\<rparr>)"

text \<open>\<^verbatim>\<open>{...this._settings, ...settings}\<close>: a key of the patch that is present wins.\<close>

definition merge_field :: "'a option \<Rightarrow> 'a option \<Rightarrow> 'a option" where
  "merge_field old new = (case new of None \<Rightarrow> old | Some v \<Rightarrow> Some v)"

definition setSettings :: "Settings \<Rightarrow> provider \<Rightarrow> provider" where
  "setSettings patch p =
     p\<lparr>settings :=
         \<lparr> selectedInsideCodeblock =
             merge_field (selectedInsideCodeblock (settings p)) (selectedInsideCodeblock patch),
           keepConversation =
             merge_field (keepConversation (settings p)) (keepConversation patch),
           timeoutLength =
             merge_field (timeoutLength (settings p)) (timeoutLength patch) \<rparr>\<rparr>"

definition setWorkingState :: "WorkingState \<Rightarrow> provider \<Rightarrow> provider" where
  "setWorkingState m p =
     (let p1 = p\<lparr>workingState := m\<rparr>
      in postMessage (SetWorkingState (workingState p1)) p1)"

definition newAPI :: "provider \<Rightarrow> provider" where
  "newAPI p =
     (let p1 = p\<lparr>conversation := None, currentMessageNumber := 0\<rparr>
      in case authInfo p1 of
           None \<Rightarrow> p1
         | Some a \<Rightarrow>
             if mode a = Some ''ChatGPTAPI'' then
               (if \<not> truthy_string (apiKey a) then p1
                else p1\<lparr>chatGPTAPI := Some (ChatGPTAPI (the (apiKey a)))\<rparr>)
             else if mode a = Some ''ChatGPTUnofficialProxyAPI'' then
               (if \<not> truthy_string (accessToken a) then p1
                else if \<not> truthy_string (proxyUrl a) then p1
                else p1\<lparr>chatGPTAPI :=
                         Some (ChatGPTUnofficialProxyAPI (the (accessToken a))
                                 (the (proxyUrl a)))\<rparr>)
             else p1)"

definition setAuthenticationInfo :: "AuthInfo \<Rightarrow> provider \<Rightarrow> provider" where
  "setAuthenticationInfo a p = newAPI (p\<lparr>authInfo := Some a\<rparr>)"

definition resolveWebviewView :: "WebviewView \<Rightarrow> provider \<Rightarrow> provider" where
  "resolveWebviewView v p = p\<lparr>view := Some v\<rparr>"

definition resetConversation :: "provider \<Rightarrow> provider" where
  "resetConversation p =
     (let p1 = (if conversation p \<noteq> None then p\<lparr>conversation := None\<rparr> else p);
          p2 = p1\<lparr>currentMessageNumber := 0, prompt := Some [], response := Some [],
                  fullPrompt := Some []\<rparr>;
          p3 = postMessage (SetPrompt (Some [])) p2
      in postMessage (AddResponse []) p3)"

text \<open>\<^verbatim>\<open>this._view.show?.(true)\<close>, where the view exists.\<close>

definition showView :: "provider \<Rightarrow> provider" where
  "showView p = p\<lparr>webviewLog := webviewLog p @ [ShowView]\<rparr>"

definition abort :: "provider \<Rightarrow> provider" where
  "abort p =
     (let p1 = postMessage (SetWorkingState Idle) p;
          p2 = p1\<lparr>aborted := insert (abortController p1) (aborted p1)\<rparr>
      in p2\<lparr>abortController := Suc (abortController p2)\<rparr>)"

subsection \<open>The effective prompt\<close>

text \<open>
  \<^verbatim>\<open>vscode.window.activeTextEditor\<close>: \<open>None\<close> when no editor is active, otherwise the text
  of its selection (empty when nothing is selected). The selection object of an editor always
  exists, so \<^verbatim>\<open>selection && selectedText\<close> is: an editor is active and the text is not empty.
\<close>

type_synonym editor = "string option"

definition searchPrompt_of :: "Settings \<Rightarrow> string \<Rightarrow> editor \<Rightarrow> string" where
  "searchPrompt_of st pr ed =
     (if truthy_string ed then
        (if truthy_bool (selectedInsideCodeblock st)
         then pr @ ''\<newline>```\<newline>'' @ the ed @ ''\<newline>```''
         else pr @ ''\<newline>'' @ the ed @ ''\<newline>'')
      else pr)"

text \<open>\<^verbatim>\<open>if (!prompt) { prompt = ''; }\<close>\<close>

definition prompt_or_empty :: "string option \<Rightarrow> string" where
  "prompt_or_empty pr = (if \<not> truthy_string pr then [] else the pr)"

subsection \<open>Sending a prompt\<close>

definition api_key_error :: string where
  \<open>api_key_error =
     ''[ERROR] "API key not set or wrong, please go to extension settings to set it (read README.md for more info)"''\<close>

text \<open>The end of \<^verbatim>\<open>sendMessageAndGetResponse\<close>: save the response, show the view and
  post the response to it, return the response.\<close>

definition saveAndShow :: "string \<Rightarrow> provider \<Rightarrow> string \<times> provider" where
  "saveAndShow r p =
     (let p1 = p\<lparr>response := Some r\<rparr>
      in (r, case view p1 of
               None \<Rightarrow> p1
             | Some v \<Rightarrow> postMessage (AddResponse r) (showView p1)))"

text \<open>Where a call of \<^verbatim>\<open>sendMessageAndGetResponse\<close> stands when it gives control back:
  it has returned a response, or it waits for \<^verbatim>\<open>sendMessage\<close>.\<close>

datatype dispatched = Returned string | Awaiting request

definition sendMessageAndGetResponse :: "string \<Rightarrow> provider \<Rightarrow> dispatched \<times> provider" where
  "sendMessageAndGetResponse searchPrompt p =
     (case chatGPTAPI p of
        None \<Rightarrow> (let (r, p') = saveAndShow api_key_error p in (Returned r, p'))
      | Some api \<Rightarrow>
          (let p1 = postMessage (SetPrompt (prompt p)) p;
               p2 = p1\<lparr>currentMessageNumber := currentMessageNumber p1 + 1\<rparr>;
               p3 = setWorkingState Asking p2
           in (Awaiting
                 \<lparr> req_api = api,
                   req_prompt = searchPrompt,
                   req_timeoutMs = or_number (timeoutLength (settings p3)) 60 * 1000,
                   req_abortSignal = abortController p3,
                   req_conversation = conversation p3,
                   req_messageNumber = currentMessageNumber p3,
                   req_response = [] \<rparr>,
               p3)))"

text \<open>The callback \<^verbatim>\<open>onProgress\<close> of a call in flight.\<close>

definition onProgress :: "ChatMessage \<Rightarrow> request \<Rightarrow> provider \<Rightarrow> request \<times> provider" where
  "onProgress partialResponse r p =
     (if currentMessageNumber p \<noteq> req_messageNumber r then (r, p)
      else case view p of
             None \<Rightarrow> (r, p)
           | Some v \<Rightarrow>
               if visible v
               then (r\<lparr>req_response := res_text partialResponse\<rparr>,
                     postMessage (AddResponse (res_text partialResponse)) p)
               else (r, p))"

text \<open>After the \<^verbatim>\<open>await\<close>, when \<^verbatim>\<open>sendMessage\<close> resolved to \<open>res\<close>.\<close>

definition sendMessage_fulfilled :: "ChatMessage \<Rightarrow> request \<Rightarrow> provider \<Rightarrow> string \<times> provider" where
  "sendMessage_fulfilled res r p =
     (let p1 = postMessage (SetWorkingState Idle) p
      in if currentMessageNumber p1 \<noteq> req_messageNumber r then ([], p1)
         else
           (let p2 = (if truthy_bool (keepConversation (settings p1))
                      then p1\<lparr>conversation :=
                                Some \<lparr> conversationId = res_conversationId res,
                                       parentMessageId = res_id res \<rparr>\<rparr>
                      else p1)
            in saveAndShow (res_text res) p2))"

text \<open>The \<^verbatim>\<open>catch\<close> block, when \<^verbatim>\<open>sendMessage\<close> threw or rejected with an error whose
  rendering in a template string is \<open>e\<close>.\<close>

definition error_trailer :: "string \<Rightarrow> string" where
  "error_trailer e = ''\<newline>\<newline>---\<newline>[ERROR] '' @ e"

definition sendMessage_rejected :: "string \<Rightarrow> request \<Rightarrow> provider \<Rightarrow> string \<times> provider" where
  "sendMessage_rejected e r p =
     (let p1 = postMessage (SetWorkingState Idle) p
      in saveAndShow (req_response r @ error_trailer e) p1)"

text \<open>
  \<^verbatim>\<open>searchSelection\<close>. When the provider has no view, the source awaits the command
  \<^verbatim>\<open>chatgpt.chatView.focus\<close>, upon which the editor may call \<^verbatim>\<open>resolveWebviewView\<close>:
  \<open>focus\<close> is the view it does so with, if it does. No other event is taken to run
  during that \<^verbatim>\<open>await\<close>.
\<close>

definition searchSelection ::
  "string option \<Rightarrow> editor \<Rightarrow> WebviewView option \<Rightarrow> provider \<Rightarrow> dispatched \<times> provider" where
  "searchSelection pr ed focus p =
     (let p1 = p\<lparr>prompt := pr\<rparr>;
          pr' = prompt_or_empty pr;
          p2 = (if chatGPTAPI p1 = None then newAPI p1 else p1);
          p3 = (case view p2 of
                  None \<Rightarrow> (case focus of None \<Rightarrow> p2 | Some v \<Rightarrow> resolveWebviewView v p2)
                | Some v \<Rightarrow> showView p2);
          p4 = p3\<lparr>response := Some []\<rparr>;
          sp = searchPrompt_of (settings p4) pr' ed;
          p5 = p4\<lparr>fullPrompt := Some sp\<rparr>
      in sendMessageAndGetResponse sp p5)"

text \<open>The search prompt a call of \<^verbatim>\<open>searchSelection\<close> hands to \<^verbatim>\<open>sendMessage\<close>, when it
  makes a call.\<close>

definition sent_prompt :: "dispatched \<Rightarrow> string option" where
  "sent_prompt d = (case d of Returned r \<Rightarrow> None | Awaiting r \<Rightarrow> Some (req_prompt r))"

subsection \<open>Configuration\<close>

text \<open>The configuration section \<^verbatim>\<open>chatgpt\<close> as \<^verbatim>\<open>config.get\<close> reads it.\<close>

record config =
  cfg_mode :: "string option"
  cfg_apiKey :: "string option"
  cfg_accessToken :: "string option"
  cfg_proxyUrl :: "string option"
  cfg_customProxyUrl :: "string option"
  cfg_selectedInsideCodeblock :: "bool option"
  cfg_keepConversation :: "bool option"
  cfg_timeoutLength :: "int option"

datatype config_key =
    Mode | ApiKey | AccessToken | ProxyUrl | CustomProxyUrl
  | SelectedInsideCodeblock | KeepConversation | TimeoutLength | OtherKey string

text \<open>A change event is the set of keys it affects.\<close>

type_synonym ConfigurationChangeEvent = "config_key set"

definition affectsConfiguration :: "ConfigurationChangeEvent \<Rightarrow> config_key \<Rightarrow> bool" where
  "affectsConfiguration event k = (k \<in> event)"

definition auth_of_config :: "config \<Rightarrow> AuthInfo" where
  "auth_of_config c =
     \<lparr> mode = cfg_mode c, apiKey = cfg_apiKey c, accessToken = cfg_accessToken c,
       proxyUrl = (if cfg_proxyUrl c = Some ''Custom'' then cfg_customProxyUrl c
                   else cfg_proxyUrl c) \<rparr>"

definition no_patch :: Settings where
  "no_patch = \<lparr> selectedInsideCodeblock = None, keepConversation = None, timeoutLength = None \<rparr>"

definition activate :: "config \<Rightarrow> provider" where
  "activate c =
     setSettings
       \<lparr> selectedInsideCodeblock = Some (or_false (cfg_selectedInsideCodeblock c)),
         keepConversation = Some (or_false (cfg_keepConversation c)),
         timeoutLength = Some (or_number (cfg_timeoutLength c) 60) \<rparr>
       (setAuthenticationInfo (auth_of_config c) init_provider)"

definition onDidChangeConfiguration ::
  "config \<Rightarrow> ConfigurationChangeEvent \<Rightarrow> provider \<Rightarrow> provider" where
  "onDidChangeConfiguration c event p =
     (if affectsConfiguration event Mode \<or> affectsConfiguration event ApiKey \<or>
         affectsConfiguration event AccessToken \<or> affectsConfiguration event ProxyUrl
      then resetConversation (setAuthenticationInfo (auth_of_config c) p)
      else if affectsConfiguration event SelectedInsideCodeblock
      then setSettings
             (no_patch\<lparr>selectedInsideCodeblock := Some (or_false (cfg_selectedInsideCodeblock c))\<rparr>) p
      else if affectsConfiguration event KeepConversation
      then setSettings (no_patch\<lparr>keepConversation := Some (or_false (cfg_keepConversation c))\<rparr>) p
      else if affectsConfiguration event TimeoutLength
      then setSettings (no_patch\<lparr>timeoutLength := Some (or_number (cfg_timeoutLength c) 60)\<rparr>) p
      else p)"

subsection \<open>Runs of the extension\<close>

text \<open>
  The provider together with the calls of \<^verbatim>\<open>sendMessage\<close> it has made, in the order it
  made them; a call that has settled is \<open>None\<close>. The events are what the editor, the webview
  and the backend can do to the provider: a configuration change, the editor resolving the
  view or changing its visibility, the commands, the messages of the webview (which need a
  resolved view to come from), and a call in flight reporting progress, resolving or
  rejecting.
\<close>

record system =
  prov :: provider
  calls :: "request option list"

datatype event =
    ConfigChanged config ConfigurationChangeEvent
  | ResolveWebviewView WebviewView
  | VisibilityChanged bool
  | SearchSelection "string option" editor "WebviewView option"
  | ResetConversation
  | PromptMessage "string option" editor
  | AbortMessage
  | WebviewLoaded
  | Progress nat ChatMessage
  | Fulfilled nat ChatMessage
  | Rejected nat string

definition call_at :: "system \<Rightarrow> nat \<Rightarrow> request option" where
  "call_at s i = (if i < length (calls s) then calls s ! i else None)"

definition dispatch :: "dispatched \<times> provider \<Rightarrow> system \<Rightarrow> system" where
  "dispatch d s =
     (case fst d of
        Returned r \<Rightarrow> s\<lparr>prov := snd d\<rparr>
      | Awaiting r \<Rightarrow> s\<lparr>prov := snd d, calls := calls s @ [Some r]\<rparr>)"

fun step :: "event \<Rightarrow> system \<Rightarrow> system" where
  "step (ConfigChanged c e) s = s\<lparr>prov := onDidChangeConfiguration c e (prov s)\<rparr>"
| "step (ResolveWebviewView v) s = s\<lparr>prov := resolveWebviewView v (prov s)\<rparr>"
| "step (VisibilityChanged b) s =
     (case view (prov s) of
        None \<Rightarrow> s
      | Some v \<Rightarrow> s\<lparr>prov := (prov s)\<lparr>view := Some (v\<lparr>visible := b\<rparr>)\<rparr>\<rparr>)"
| "step (SearchSelection pr ed focus) s = dispatch (searchSelection pr ed focus (prov s)) s"
| "step ResetConversation s = s\<lparr>prov := resetConversation (prov s)\<rparr>"
| "step (PromptMessage pr ed) s =
     (if view (prov s) = None then s else dispatch (searchSelection pr ed None (prov s)) s)"
| "step AbortMessage s =
     (if view (prov s) = None then s else s\<lparr>prov := abort (prov s)\<rparr>)"
| "step WebviewLoaded s =
     (if view (prov s) = None then s
      else s\<lparr>prov := postMessage (SetWorkingState (workingState (prov s))) (prov s)\<rparr>)"
| "step (Progress i partialResponse) s =
     (case call_at s i of
        None \<Rightarrow> s
      | Some r \<Rightarrow>
          (let (r', p') = onProgress partialResponse r (prov s)
           in s\<lparr>prov := p', calls := (calls s)[i := Some r']\<rparr>))"
| "step (Fulfilled i res) s =
     (case call_at s i of
        None \<Rightarrow> s
      | Some r \<Rightarrow>
          s\<lparr>prov := snd (sendMessage_fulfilled res r (prov s)), calls := (calls s)[i := None]\<rparr>)"
| "step (Rejected i e) s =
     (case call_at s i of
        None \<Rightarrow> s
      | Some r \<Rightarrow>
          s\<lparr>prov := snd (sendMessage_rejected e r (prov s)), calls := (calls s)[i := None]\<rparr>)"

fun run :: "event list \<Rightarrow> system \<Rightarrow> system" where
  "run [] s = s"
| "run (e # es) s = run es (step e s)"

definition start :: "config \<Rightarrow> system" where
  "start c = \<lparr> prov = activate c, calls = [] \<rparr>"

text \<open>The working state the webview was last told, if it was told any.\<close>

fun shown_state :: "ui_effect list \<Rightarrow> WorkingState option" where
  "shown_state [] = None"
| "shown_state (PostMessage (SetWorkingState w) # es) =
     (case shown_state es of None \<Rightarrow> Some w | Some w' \<Rightarrow> Some w')"
| "shown_state (e # es) = shown_state es"

subsection \<open>Predicates on the provider's state\<close>

text \<open>The provider has never been in the state \<open>Asking\<close> and has never told its view so.\<close>

definition never_asked :: "provider \<Rightarrow> bool" where
  "never_asked p =
     (workingState p = Idle \<and> PostMessage (SetWorkingState Asking) \<notin> set (webviewLog p))"

definition idle_without_backend :: "provider \<Rightarrow> bool" where
  "idle_without_backend p = (chatGPTAPI p = None \<longrightarrow> never_asked p)"

text \<open>Every controller whose signal has fired is older than the live one.\<close>

definition controller_fresh :: "provider \<Rightarrow> bool" where
  "controller_fresh p = (\<forall>i \<in> aborted p. i < abortController p)"

subsection \<open>Data of the example runs\<close>

text \<open>A configuration with nothing set, one for the official API with its key, the same
  after the key was changed, the first with \<^verbatim>\<open>keepConversation\<close> switched off, and the
  first with \<^verbatim>\<open>selectedInsideCodeblock\<close> switched on.\<close>

definition cfg_unset :: config where
  "cfg_unset =
     \<lparr> cfg_mode = None, cfg_apiKey = None, cfg_accessToken = None, cfg_proxyUrl = None,
       cfg_customProxyUrl = None, cfg_selectedInsideCodeblock = None,
       cfg_keepConversation = None, cfg_timeoutLength = None \<rparr>"

definition cfg_key1 :: config where
  "cfg_key1 =
     \<lparr> cfg_mode = Some ''ChatGPTAPI'', cfg_apiKey = Some ''k1'', cfg_accessToken = None,
       cfg_proxyUrl = None, cfg_customProxyUrl = None, cfg_selectedInsideCodeblock = Some False,
       cfg_keepConversation = Some True, cfg_timeoutLength = Some 60 \<rparr>"

definition cfg_key2 :: config where
  "cfg_key2 = cfg_key1\<lparr>cfg_apiKey := Some ''k2''\<rparr>"

definition cfg_forget :: config where
  "cfg_forget = cfg_key1\<lparr>cfg_keepConversation := Some False\<rparr>"

definition cfg_block :: config where
  "cfg_block = cfg_key1\<lparr>cfg_selectedInsideCodeblock := Some True\<rparr>"

definition shown_view :: WebviewView where
  "shown_view = \<lparr> visible = True \<rparr>"

definition hidden_view :: WebviewView where
  "hidden_view = \<lparr> visible = False \<rparr>"

definition answer_A :: ChatMessage where
  "answer_A = \<lparr> res_text = ''answer A'', res_conversationId = Some ''c1'', res_id = ''m1'' \<rparr>"

definition answer_B :: ChatMessage where
  "answer_B = \<lparr> res_text = ''answer B'', res_conversationId = Some ''c2'', res_id = ''m2'' \<rparr>"

definition partial_A :: ChatMessage where
  "partial_A = \<lparr> res_text = ''ans'', res_conversationId = Some ''c1'', res_id = ''m1'' \<rparr>"

definition cfg_proxy :: config where
  "cfg_proxy = cfg_unset\<lparr>cfg_mode := Some ''ChatGPTUnofficialProxyAPI'',
      cfg_accessToken := Some ''t'', cfg_proxyUrl := Some ''Custom'',
      cfg_customProxyUrl := Some ''https://proxy.example/api''\<rparr>"

text \<open>The provider after the view was resolved and the prompt \<^verbatim>\<open>a\<close> was sent, and the
  call then in flight, after a first chunk.\<close>

definition asking_A :: "WebviewView \<Rightarrow> provider" where
  "asking_A v =
     prov (run [ResolveWebviewView v, SearchSelection (Some ''a'') None None] (start cfg_key1))"

definition call_A :: request where
  "call_A =
     \<lparr> req_api = ChatGPTAPI ''k1'', req_prompt = ''a'', req_timeoutMs = 60000,
       req_abortSignal = 0, req_conversation = None, req_messageNumber = 1,
       req_response = ''an'' \<rparr>"

text \<open>The events of the example runs: the editor resolves a visible view, and three prompts
  are sent with no text selected.\<close>

definition open_view :: event where
  "open_view = ResolveWebviewView shown_view"

definition send_A :: event where
  "send_A = SearchSelection (Some ''a'') None None"

definition send_B :: event where
  "send_B = SearchSelection (Some ''b'') None None"

definition send_C :: event where
  "send_C = SearchSelection (Some ''c'') None None"

text \<open>The definitions a run is evaluated with.\<close>

lemmas run_defs =
  start_def activate_def setSettings_def setAuthenticationInfo_def newAPI_def
  init_provider_def auth_of_config_def truthy_string_def truthy_bool_def or_false_def
  or_number_def merge_field_def resolveWebviewView_def searchSelection_def
  sendMessageAndGetResponse_def postMessage_def setWorkingState_def showView_def
  saveAndShow_def dispatch_def call_at_def sendMessage_fulfilled_def sendMessage_rejected_def
  onProgress_def prompt_or_empty_def searchPrompt_of_def abort_def resetConversation_def
  onDidChangeConfiguration_def affectsConfiguration_def no_patch_def error_trailer_def
  api_key_error_def cfg_unset_def cfg_key1_def cfg_key2_def cfg_forget_def cfg_block_def shown_view_def
  hidden_view_def answer_A_def answer_B_def partial_A_def open_view_def send_A_def
  send_B_def send_C_def Let_def

section \<open>A provider without a backend has never asked\<close>

text \<open>
  No method removes a backend once \<^verbatim>\<open>_newAPI\<close> has built one, and the working state is
  set to \<open>Asking\<close> only on the branch of \<^verbatim>\<open>sendMessageAndGetResponse\<close> that has a
  backend. So in every run, a provider without a backend is idle.
\<close>

lemma iwb_postMessage:
  "idle_without_backend p \<Longrightarrow> m \<noteq> SetWorkingState Asking \<Longrightarrow> idle_without_backend (postMessage m p)"
  by (simp add: idle_without_backend_def never_asked_def postMessage_def split: option.splits)

lemma iwb_newAPI: "idle_without_backend p \<Longrightarrow> idle_without_backend (newAPI p)"
  by (simp add: idle_without_backend_def never_asked_def newAPI_def Let_def split: option.splits)

lemma iwb_setAuthenticationInfo:
  "idle_without_backend p \<Longrightarrow> idle_without_backend (setAuthenticationInfo a p)"
  by (simp add: idle_without_backend_def never_asked_def setAuthenticationInfo_def newAPI_def Let_def)

lemma iwb_setSettings: "idle_without_backend p \<Longrightarrow> idle_without_backend (setSettings st p)"
  by (simp add: idle_without_backend_def never_asked_def setSettings_def)

lemma iwb_resetConversation: "idle_without_backend p \<Longrightarrow> idle_without_backend (resetConversation p)"
  by (simp add: idle_without_backend_def never_asked_def resetConversation_def postMessage_def Let_def
      split: option.splits)

lemma iwb_abort: "idle_without_backend p \<Longrightarrow> idle_without_backend (abort p)"
  by (simp add: idle_without_backend_def never_asked_def abort_def postMessage_def Let_def
      split: option.splits)

lemma iwb_saveAndShow: "idle_without_backend p \<Longrightarrow> idle_without_backend (snd (saveAndShow r p))"
  by (simp add: idle_without_backend_def never_asked_def saveAndShow_def postMessage_def showView_def
      Let_def split: option.splits)

lemma iwb_sendMessageAndGetResponse:
  "idle_without_backend p \<Longrightarrow> idle_without_backend (snd (sendMessageAndGetResponse sp p))"
  by (simp add: idle_without_backend_def never_asked_def sendMessageAndGetResponse_def saveAndShow_def
      postMessage_def showView_def setWorkingState_def Let_def split: option.splits)

lemma iwb_searchSelection:
  "idle_without_backend p \<Longrightarrow> idle_without_backend (snd (searchSelection pr ed focus p))"
  unfolding searchSelection_def Let_def
  by (intro iwb_sendMessageAndGetResponse)
     (auto simp: idle_without_backend_def never_asked_def newAPI_def showView_def
        resolveWebviewView_def Let_def split: option.splits)

lemma iwb_onProgress: "idle_without_backend p \<Longrightarrow> idle_without_backend (snd (onProgress m r p))"
  by (simp add: idle_without_backend_def never_asked_def onProgress_def postMessage_def
      split: option.splits)

lemma iwb_fulfilled:
  "idle_without_backend p \<Longrightarrow> idle_without_backend (snd (sendMessage_fulfilled res r p))"
  by (simp add: idle_without_backend_def never_asked_def sendMessage_fulfilled_def saveAndShow_def
      postMessage_def showView_def Let_def split: option.splits)

lemma iwb_rejected:
  "idle_without_backend p \<Longrightarrow> idle_without_backend (snd (sendMessage_rejected e r p))"
  by (simp add: idle_without_backend_def never_asked_def sendMessage_rejected_def saveAndShow_def
      postMessage_def showView_def Let_def split: option.splits)

lemma iwb_onDidChangeConfiguration:
  "idle_without_backend p \<Longrightarrow> idle_without_backend (onDidChangeConfiguration c e p)"
  by (simp add: onDidChangeConfiguration_def iwb_resetConversation iwb_setAuthenticationInfo
      iwb_setSettings)

lemma iwb_activate: "idle_without_backend (activate c)"
  by (simp add: activate_def idle_without_backend_def never_asked_def setSettings_def
      setAuthenticationInfo_def newAPI_def init_provider_def Let_def)

lemma iwb_step:
  assumes "idle_without_backend (prov s)"
  shows "idle_without_backend (prov (step e s))"
proof (cases e)
  case (ConfigChanged c ev)
  with assms show ?thesis by (simp add: iwb_onDidChangeConfiguration)
next
  case (ResolveWebviewView v)
  with assms show ?thesis
    by (simp add: resolveWebviewView_def idle_without_backend_def never_asked_def)
next
  case (VisibilityChanged b)
  with assms show ?thesis
    by (simp add: idle_without_backend_def never_asked_def split: option.splits)
next
  case (SearchSelection pr ed focus)
  with assms iwb_searchSelection [of "prov s" pr ed focus] show ?thesis
    by (simp add: dispatch_def split: dispatched.splits)
next
  case ResetConversation
  with assms show ?thesis by (simp add: iwb_resetConversation)
next
  case (PromptMessage pr ed)
  with assms iwb_searchSelection [of "prov s" pr ed None] show ?thesis
    by (simp add: dispatch_def split: dispatched.splits)
next
  case AbortMessage
  with assms show ?thesis by (simp add: iwb_abort)
next
  case WebviewLoaded
  with assms show ?thesis
    by (auto simp: idle_without_backend_def never_asked_def postMessage_def split: option.splits)
next
  case (Progress i m)
  show ?thesis
  proof (cases "call_at s i")
    case None
    with assms Progress show ?thesis by simp
  next
    case (Some r)
    with Progress iwb_onProgress [OF assms, of m r] show ?thesis
      by (cases "onProgress m r (prov s)") simp
  qed
next
  case (Fulfilled i res)
  with assms show ?thesis by (simp add: iwb_fulfilled split: option.splits)
next
  case (Rejected i err)
  with assms show ?thesis by (simp add: iwb_rejected split: option.splits)
qed

lemma iwb_run: "idle_without_backend (prov s) \<Longrightarrow> idle_without_backend (prov (run es s))"
  by (induction es arbitrary: s) (simp_all add: iwb_step)

lemma iwb_reachable: "idle_without_backend (prov (run es (start c)))"
  by (rule iwb_run) (simp add: start_def iwb_activate)

section \<open>A prompt without a backend (C6)\<close>

lemma shown_state_never_asked:
  "PostMessage (SetWorkingState Asking) \<notin> set es \<Longrightarrow> shown_state es \<noteq> Some Asking"
  by (induction es rule: shown_state.induct) (auto split: option.splits)

lemma newAPI_keeps_backend: "chatGPTAPI (newAPI p) = None \<Longrightarrow> chatGPTAPI p = None"
  by (simp add: newAPI_def Let_def split: option.splits if_splits)

lemma saveAndShow_fst [simp]: "fst (saveAndShow r p) = r"
  by (simp add: saveAndShow_def Let_def)

lemma saveAndShow_response [simp]: "response (snd (saveAndShow r p)) = Some r"
  by (simp add: saveAndShow_def Let_def postMessage_def showView_def split: option.splits)

lemma saveAndShow_view [simp]: "view (snd (saveAndShow r p)) = view p"
  by (simp add: saveAndShow_def Let_def postMessage_def showView_def split: option.splits)

lemma saveAndShow_log:
  "webviewLog (snd (saveAndShow r p)) =
     webviewLog p @ (if view p = None then [] else [ShowView, PostMessage (AddResponse r)])"
  by (simp add: saveAndShow_def Let_def postMessage_def showView_def split: option.splits)

lemma sendMessageAndGetResponse_no_backend:
  "chatGPTAPI p = None \<Longrightarrow>
     sendMessageAndGetResponse sp p = (Returned api_key_error, snd (saveAndShow api_key_error p))"
  by (simp add: sendMessageAndGetResponse_def split_beta)

lemma newAPI_prompt: "newAPI (p\<lparr>prompt := pr\<rparr>) = (newAPI p)\<lparr>prompt := pr\<rparr>"
  by (simp add: newAPI_def Let_def split: option.splits)

lemma searchSelection_no_backend:
  assumes "chatGPTAPI (newAPI p) = None"
  shows "\<exists>q. chatGPTAPI q = None \<and>
           searchSelection pr ed focus p = (Returned api_key_error, snd (saveAndShow api_key_error q))"
proof -
  have none: "chatGPTAPI p = None"
    using assms by (rule newAPI_keeps_backend)
  define p2 where "p2 = newAPI (p\<lparr>prompt := pr\<rparr>)"
  define p3 where "p3 = (case view p2 of
                  None \<Rightarrow> (case focus of None \<Rightarrow> p2 | Some v \<Rightarrow> resolveWebviewView v p2)
                | Some v \<Rightarrow> showView p2)"
  define p5 where "p5 = p3\<lparr>response := Some [],
     fullPrompt := Some (searchPrompt_of (settings p3) (prompt_or_empty pr) ed)\<rparr>"
  have "chatGPTAPI p2 = None"
    using assms by (simp add: p2_def newAPI_prompt)
  then have "chatGPTAPI p3 = None"
    by (simp add: p3_def resolveWebviewView_def showView_def split: option.splits)
  then have n5: "chatGPTAPI p5 = None"
    by (simp add: p5_def)
  have "searchSelection pr ed focus p =
          sendMessageAndGetResponse (searchPrompt_of (settings p3) (prompt_or_empty pr) ed) p5"
    unfolding p5_def p3_def p2_def searchSelection_def Let_def using none by simp
  with n5 show ?thesis
    by (auto simp: sendMessageAndGetResponse_no_backend)
qed

lemma saveAndShow_backend [simp]: "chatGPTAPI (snd (saveAndShow r p)) = chatGPTAPI p"
  by (simp add: saveAndShow_def Let_def postMessage_def showView_def split: option.splits)

text \<open>
  C6. In every run of the extension, when the provider has no backend and the retry of
  \<^verbatim>\<open>searchSelection\<close> builds none, sending any prompt returns the literal error
  response about the API key, stores it as the response, posts it to the view as the last
  message when there is a view, makes no call of the backend, and leaves the working state
  \<open>Idle\<close>, in the provider and in what the view was told; so does
  \<^verbatim>\<open>sendMessageAndGetResponse\<close> itself on any search prompt. The method returns
  normally: this path only assigns fields and posts to the view.
\<close>

theorem no_backend_error_response:
  assumes "p = prov (run es (start c))"
    and "chatGPTAPI (newAPI p) = None"
  shows \<open>fst (searchSelection pr ed focus p) =
           Returned ''[ERROR] "API key not set or wrong, please go to extension settings to set it (read README.md for more info)"''
       \<and> response (snd (searchSelection pr ed focus p)) =
           Some ''[ERROR] "API key not set or wrong, please go to extension settings to set it (read README.md for more info)"''
       \<and> (view (snd (searchSelection pr ed focus p)) \<noteq> None \<longrightarrow>
            last (webviewLog (snd (searchSelection pr ed focus p))) =
              PostMessage (AddResponse ''[ERROR] "API key not set or wrong, please go to extension settings to set it (read README.md for more info)"''))
       \<and> workingState (snd (searchSelection pr ed focus p)) = Idle
       \<and> shown_state (webviewLog (snd (searchSelection pr ed focus p))) \<noteq> Some Asking
       \<and> calls (step (SearchSelection pr ed focus) (run es (start c))) = calls (run es (start c))
       \<and> fst (sendMessageAndGetResponse sp p) =
           Returned ''[ERROR] "API key not set or wrong, please go to extension settings to set it (read README.md for more info)"''
       \<and> workingState (snd (sendMessageAndGetResponse sp p)) = Idle\<close>
proof -
  let ?q = "snd (searchSelection pr ed focus p)"
  from searchSelection_no_backend [OF assms(2), of pr ed focus]
  obtain q where q: "chatGPTAPI q = None"
    and eq: "searchSelection pr ed focus p = (Returned api_key_error, snd (saveAndShow api_key_error q))"
    by blast
  have ret: "fst (searchSelection pr ed focus p) = Returned api_key_error"
    by (simp add: eq)
  have resp: "response ?q = Some api_key_error"
    by (simp add: eq)
  have post: "view ?q \<noteq> None \<longrightarrow> last (webviewLog ?q) = PostMessage (AddResponse api_key_error)"
    by (simp add: eq saveAndShow_log)
  have still: "chatGPTAPI ?q = None"
    by (simp add: eq q)
  have "idle_without_backend p"
    unfolding assms(1) by (rule iwb_reachable)
  then have "idle_without_backend ?q"
    by (rule iwb_searchSelection)
  with still have na: "never_asked ?q"
    by (simp add: idle_without_backend_def)
  then have idle: "workingState ?q = Idle" and shown: "shown_state (webviewLog ?q) \<noteq> Some Asking"
    by (simp_all add: never_asked_def shown_state_never_asked)
  have calls: "calls (step (SearchSelection pr ed focus) (run es (start c))) = calls (run es (start c))"
    using ret assms(1) by (simp add: dispatch_def)
  have none: "chatGPTAPI p = None"
    using assms(2) by (rule newAPI_keeps_backend)
  then have direct: "fst (sendMessageAndGetResponse sp p) = Returned api_key_error"
    by (simp add: sendMessageAndGetResponse_no_backend)
  have "idle_without_backend (snd (sendMessageAndGetResponse sp p))"
    using \<open>idle_without_backend p\<close> by (rule iwb_sendMessageAndGetResponse)
  with none have direct_idle: "workingState (snd (sendMessageAndGetResponse sp p)) = Idle"
    by (simp add: sendMessageAndGetResponse_no_backend idle_without_backend_def never_asked_def)
  from ret resp post idle shown calls direct direct_idle show ?thesis
    by (simp add: api_key_error_def)
qed

theorem no_backend_error_response_witness:
  \<open>chatGPTAPI (newAPI (prov (run [ResolveWebviewView shown_view] (start cfg_unset)))) = None
   \<and> fst (searchSelection (Some ''hi'') None None
            (prov (run [ResolveWebviewView shown_view] (start cfg_unset)))) =
       Returned ''[ERROR] "API key not set or wrong, please go to extension settings to set it (read README.md for more info)"''
   \<and> last (webviewLog (snd (searchSelection (Some ''hi'') None None
            (prov (run [ResolveWebviewView shown_view] (start cfg_unset)))))) =
       PostMessage (AddResponse ''[ERROR] "API key not set or wrong, please go to extension settings to set it (read README.md for more info)"'')
   \<and> workingState (snd (searchSelection (Some ''hi'') None None
            (prov (run [ResolveWebviewView shown_view] (start cfg_unset))))) = Idle\<close>
proof -
  let ?p = "prov (run [ResolveWebviewView shown_view] (start cfg_unset))"
  have h: "chatGPTAPI (newAPI ?p) = None"
    by (simp add: run_defs)
  have v: "view (snd (searchSelection (Some ''hi'') None None ?p)) \<noteq> None"
    by (simp add: run_defs)
  from no_backend_error_response [OF refl h, of "Some ''hi''" None None] h v
  show ?thesis by simp
qed

section \<open>The effective prompt (C5)\<close>

lemma newAPI_settings [simp]: "settings (newAPI p) = settings p"
  by (simp add: newAPI_def Let_def split: option.splits)

lemma newAPI_backend_kept: "chatGPTAPI p \<noteq> None \<Longrightarrow> chatGPTAPI (newAPI p) \<noteq> None"
  by (simp add: newAPI_def Let_def split: option.splits)

lemma sendMessageAndGetResponse_fullPrompt [simp]:
  "fullPrompt (snd (sendMessageAndGetResponse sp p)) = fullPrompt p"
  by (simp add: sendMessageAndGetResponse_def split_beta saveAndShow_def setWorkingState_def
      postMessage_def showView_def Let_def split: option.splits)

lemma sendMessageAndGetResponse_sent:
  "sent_prompt (fst (sendMessageAndGetResponse sp p)) =
     (if chatGPTAPI p = None then None else Some sp)"
  by (simp add: sendMessageAndGetResponse_def split_beta sent_prompt_def Let_def
      split: option.splits)

text \<open>The state in which \<^verbatim>\<open>searchSelection\<close> calls \<^verbatim>\<open>sendMessageAndGetResponse\<close>: it
  holds the search prompt built from the provider's own settings.\<close>

lemma searchSelection_unfold:
  "\<exists>q. searchSelection pr ed focus p =
          sendMessageAndGetResponse (searchPrompt_of (settings p) (prompt_or_empty pr) ed) q
       \<and> fullPrompt q = Some (searchPrompt_of (settings p) (prompt_or_empty pr) ed)
       \<and> chatGPTAPI q = (if chatGPTAPI p = None then chatGPTAPI (newAPI p) else chatGPTAPI p)"
proof -
  define p2 where "p2 = (if chatGPTAPI p = None then newAPI (p\<lparr>prompt := pr\<rparr>) else p\<lparr>prompt := pr\<rparr>)"
  define p3 where "p3 = (case view p2 of
                  None \<Rightarrow> (case focus of None \<Rightarrow> p2 | Some v \<Rightarrow> resolveWebviewView v p2)
                | Some v \<Rightarrow> showView p2)"
  define sp where "sp = searchPrompt_of (settings p3) (prompt_or_empty pr) ed"
  define p5 where "p5 = p3\<lparr>response := Some [], fullPrompt := Some sp\<rparr>"
  have s2: "settings p2 = settings p" and b2: "chatGPTAPI p2 = (if chatGPTAPI p = None then chatGPTAPI (newAPI p) else chatGPTAPI p)"
    by (simp_all add: p2_def newAPI_prompt)
  have s3: "settings p3 = settings p" and b3: "chatGPTAPI p3 = chatGPTAPI p2"
    by (simp_all add: p3_def s2 resolveWebviewView_def showView_def split: option.splits)
  have eq: "searchSelection pr ed focus p = sendMessageAndGetResponse sp p5"
    unfolding p5_def sp_def p3_def p2_def searchSelection_def Let_def
    by (cases "chatGPTAPI p") simp_all
  have "fullPrompt p5 = Some sp" "chatGPTAPI p5 = chatGPTAPI p3"
    by (simp_all add: p5_def)
  with eq b2 b3 s3 show ?thesis
    unfolding sp_def by (intro exI [of _ p5]) simp
qed

lemma searchSelection_prompt:
  "fullPrompt (snd (searchSelection pr ed focus p)) =
     Some (searchPrompt_of (settings p) (prompt_or_empty pr) ed)"
  "chatGPTAPI p \<noteq> None \<or> chatGPTAPI (newAPI p) \<noteq> None \<Longrightarrow>
     sent_prompt (fst (searchSelection pr ed focus p)) =
       Some (searchPrompt_of (settings p) (prompt_or_empty pr) ed)"
  "chatGPTAPI (newAPI p) = None \<Longrightarrow> sent_prompt (fst (searchSelection pr ed focus p)) = None"
proof -
  obtain q where q: "searchSelection pr ed focus p =
          sendMessageAndGetResponse (searchPrompt_of (settings p) (prompt_or_empty pr) ed) q"
    "fullPrompt q = Some (searchPrompt_of (settings p) (prompt_or_empty pr) ed)"
    "chatGPTAPI q = (if chatGPTAPI p = None then chatGPTAPI (newAPI p) else chatGPTAPI p)"
    using searchSelection_unfold [of pr ed focus p] by blast
  show "fullPrompt (snd (searchSelection pr ed focus p)) =
     Some (searchPrompt_of (settings p) (prompt_or_empty pr) ed)"
    by (simp add: q)
  show "sent_prompt (fst (searchSelection pr ed focus p)) =
       Some (searchPrompt_of (settings p) (prompt_or_empty pr) ed)"
    if "chatGPTAPI p \<noteq> None \<or> chatGPTAPI (newAPI p) \<noteq> None"
    using that by (auto simp: q sendMessageAndGetResponse_sent)
  show "sent_prompt (fst (searchSelection pr ed focus p)) = None"
    if "chatGPTAPI (newAPI p) = None"
    using that newAPI_keeps_backend [OF that] by (simp add: q sendMessageAndGetResponse_sent)
qed

text \<open>
  C5. For every provider, raw prompt and editor selection, \<^verbatim>\<open>searchSelection\<close> stores as
  the full prompt, and hands to \<^verbatim>\<open>sendMessage\<close> whenever it has a backend to call, the
  following text, chosen by the provider's own settings: with a non-empty selection and
  \<^verbatim>\<open>selectedInsideCodeblock\<close> true, the prompt, a newline and the selection inside a
  fenced code block; with the setting false (or absent), the prompt, a newline, the selection
  and a newline; with no selection (no active editor, or an empty selection), the raw prompt
  itself. The prompt \<^verbatim>\<open>fix\<close> with the selection \<^verbatim>\<open>x=1\<close> gives the two strings of the
  specification.
\<close>

theorem effective_prompt:
  "(sel \<noteq> [] \<and> selectedInsideCodeblock (settings p) = Some True \<longrightarrow>
      fullPrompt (snd (searchSelection (Some raw) (Some sel) focus p))
        = Some (raw @ ''\<newline>'' @ ''```'' @ ''\<newline>'' @ sel @ ''\<newline>'' @ ''```'')
      \<and> (chatGPTAPI p \<noteq> None \<or> chatGPTAPI (newAPI p) \<noteq> None \<longrightarrow>
           sent_prompt (fst (searchSelection (Some raw) (Some sel) focus p))
             = Some (raw @ ''\<newline>'' @ ''```'' @ ''\<newline>'' @ sel @ ''\<newline>'' @ ''```'')))
   \<and> (sel \<noteq> [] \<and> selectedInsideCodeblock (settings p) \<noteq> Some True \<longrightarrow>
      fullPrompt (snd (searchSelection (Some raw) (Some sel) focus p))
        = Some (raw @ ''\<newline>'' @ sel @ ''\<newline>'')
      \<and> (chatGPTAPI p \<noteq> None \<or> chatGPTAPI (newAPI p) \<noteq> None \<longrightarrow>
           sent_prompt (fst (searchSelection (Some raw) (Some sel) focus p))
             = Some (raw @ ''\<newline>'' @ sel @ ''\<newline>'')))
   \<and> (ed = None \<or> ed = Some [] \<longrightarrow>
      fullPrompt (snd (searchSelection (Some raw) ed focus p)) = Some raw
      \<and> (chatGPTAPI p \<noteq> None \<or> chatGPTAPI (newAPI p) \<noteq> None \<longrightarrow>
           sent_prompt (fst (searchSelection (Some raw) ed focus p)) = Some raw))
   \<and> (sel \<noteq> [] \<and> selectedInsideCodeblock st = Some True \<longrightarrow>
      searchPrompt_of st (prompt_or_empty (Some raw)) (Some sel)
        = raw @ ''\<newline>'' @ ''```'' @ ''\<newline>'' @ sel @ ''\<newline>'' @ ''```'')
   \<and> (sel \<noteq> [] \<and> selectedInsideCodeblock st \<noteq> Some True \<longrightarrow>
      searchPrompt_of st (prompt_or_empty (Some raw)) (Some sel)
        = raw @ ''\<newline>'' @ sel @ ''\<newline>'')
   \<and> searchPrompt_of st (prompt_or_empty (Some raw)) None = raw
   \<and> searchPrompt_of st (prompt_or_empty (Some raw)) (Some []) = raw
   \<and> searchPrompt_of (st\<lparr>selectedInsideCodeblock := Some True\<rparr>)
        (prompt_or_empty (Some ''fix'')) (Some ''x=1'')
        = ''fix\<newline>```\<newline>x=1\<newline>```''
   \<and> searchPrompt_of (st\<lparr>selectedInsideCodeblock := Some False\<rparr>)
        (prompt_or_empty (Some ''fix'')) (Some ''x=1'')
        = ''fix\<newline>x=1\<newline>''"
proof -
  have helper: "(sel \<noteq> [] \<and> selectedInsideCodeblock st = Some True \<longrightarrow>
      searchPrompt_of st (prompt_or_empty (Some raw)) (Some sel)
        = raw @ ''\<newline>'' @ ''```'' @ ''\<newline>'' @ sel @ ''\<newline>'' @ ''```'')
   \<and> (sel \<noteq> [] \<and> selectedInsideCodeblock st \<noteq> Some True \<longrightarrow>
      searchPrompt_of st (prompt_or_empty (Some raw)) (Some sel)
        = raw @ ''\<newline>'' @ sel @ ''\<newline>'')
   \<and> searchPrompt_of st (prompt_or_empty (Some raw)) None = raw
   \<and> searchPrompt_of st (prompt_or_empty (Some raw)) (Some []) = raw" for st
    by (cases raw; cases "selectedInsideCodeblock st")
       (auto simp: searchPrompt_of_def prompt_or_empty_def truthy_string_def truthy_bool_def)
  have examples: "searchPrompt_of (st\<lparr>selectedInsideCodeblock := Some True\<rparr>)
        (prompt_or_empty (Some ''fix'')) (Some ''x=1'')
        = ''fix\<newline>```\<newline>x=1\<newline>```''
   \<and> searchPrompt_of (st\<lparr>selectedInsideCodeblock := Some False\<rparr>)
        (prompt_or_empty (Some ''fix'')) (Some ''x=1'')
        = ''fix\<newline>x=1\<newline>''"
    by (simp add: searchPrompt_of_def prompt_or_empty_def truthy_string_def truthy_bool_def)
  have fenced: "fullPrompt (snd (searchSelection (Some raw) (Some sel) focus p))
        = Some (raw @ ''\<newline>'' @ ''```'' @ ''\<newline>'' @ sel @ ''\<newline>'' @ ''```'')
      \<and> (chatGPTAPI p \<noteq> None \<or> chatGPTAPI (newAPI p) \<noteq> None \<longrightarrow>
           sent_prompt (fst (searchSelection (Some raw) (Some sel) focus p))
             = Some (raw @ ''\<newline>'' @ ''```'' @ ''\<newline>'' @ sel @ ''\<newline>'' @ ''```''))"
    if "sel \<noteq> [] \<and> selectedInsideCodeblock (settings p) = Some True"
    using that helper [of "settings p"] by (simp add: searchSelection_prompt)
  have plain: "fullPrompt (snd (searchSelection (Some raw) (Some sel) focus p))
        = Some (raw @ ''\<newline>'' @ sel @ ''\<newline>'')
      \<and> (chatGPTAPI p \<noteq> None \<or> chatGPTAPI (newAPI p) \<noteq> None \<longrightarrow>
           sent_prompt (fst (searchSelection (Some raw) (Some sel) focus p))
             = Some (raw @ ''\<newline>'' @ sel @ ''\<newline>''))"
    if "sel \<noteq> [] \<and> selectedInsideCodeblock (settings p) \<noteq> Some True"
    using that helper [of "settings p"] by (simp add: searchSelection_prompt)
  have bare: "fullPrompt (snd (searchSelection (Some raw) ed focus p)) = Some raw
      \<and> (chatGPTAPI p \<noteq> None \<or> chatGPTAPI (newAPI p) \<noteq> None \<longrightarrow>
           sent_prompt (fst (searchSelection (Some raw) ed focus p)) = Some raw)"
    if "ed = None \<or> ed = Some []"
    using that helper [of "settings p"] by (auto simp: searchSelection_prompt)
  from helper [of st] examples fenced plain bare show ?thesis
    by blast
qed

theorem effective_prompt_witness:
  "fullPrompt (snd (searchSelection (Some ''fix'') (Some ''x=1'') None (activate cfg_block)))
     = Some ''fix\<newline>```\<newline>x=1\<newline>```''
   \<and> sent_prompt (fst (searchSelection (Some ''fix'') (Some ''x=1'') None (activate cfg_block)))
     = Some ''fix\<newline>```\<newline>x=1\<newline>```''
   \<and> fullPrompt (snd (searchSelection (Some ''fix'') (Some ''x=1'') None (activate cfg_key1)))
     = Some ''fix\<newline>x=1\<newline>''
   \<and> sent_prompt (fst (searchSelection (Some ''fix'') (Some ''x=1'') None (activate cfg_key1)))
     = Some ''fix\<newline>x=1\<newline>''
   \<and> fullPrompt (snd (searchSelection (Some ''fix'') None None (activate cfg_key1))) = Some ''fix''
   \<and> sent_prompt (fst (searchSelection (Some ''fix'') None None (activate cfg_key1))) = Some ''fix''"
proof -
  have t: "''x=1'' \<noteq> [] \<and> selectedInsideCodeblock (settings (activate cfg_block)) = Some True"
    by (simp add: cfg_block_def run_defs)
  have f: "''x=1'' \<noteq> [] \<and> selectedInsideCodeblock (settings (activate cfg_key1)) \<noteq> Some True"
    by (simp add: run_defs)
  have n: "(None :: editor) = None \<or> (None :: editor) = Some []"
    by simp
  have b: "chatGPTAPI (activate cfg_block) \<noteq> None \<or> chatGPTAPI (newAPI (activate cfg_block)) \<noteq> None"
    "chatGPTAPI (activate cfg_key1) \<noteq> None \<or> chatGPTAPI (newAPI (activate cfg_key1)) \<noteq> None"
    by (simp_all add: cfg_block_def run_defs)
  note fenced = effective_prompt [of "''x=1''" "activate cfg_block" "''fix''" None,
      THEN conjunct1, THEN mp, OF t]
  note plain = effective_prompt [of "''x=1''" "activate cfg_key1" "''fix''" None,
      THEN conjunct2, THEN conjunct1, THEN mp, OF f]
  note bare = effective_prompt [of _ "activate cfg_key1" "''fix''" None None,
      THEN conjunct2, THEN conjunct2, THEN conjunct1, THEN mp, OF n]
  from fenced [THEN conjunct1] fenced [THEN conjunct2, THEN mp, OF b(1)]
    plain [THEN conjunct1] plain [THEN conjunct2, THEN mp, OF b(2)]
    bare [THEN conjunct1] bare [THEN conjunct2, THEN mp, OF b(2)]
  show ?thesis
    by simp
qed

section \<open>Configuration changes (C9)\<close>

lemma resetConversation_fields:
  "conversation (resetConversation p) = None"
  "currentMessageNumber (resetConversation p) = 0"
  "prompt (resetConversation p) = Some []"
  "response (resetConversation p) = Some []"
  "fullPrompt (resetConversation p) = Some []"
  "chatGPTAPI (resetConversation p) = chatGPTAPI p"
  "authInfo (resetConversation p) = authInfo p"
  "settings (resetConversation p) = settings p"
  by (simp_all add: resetConversation_def postMessage_def Let_def split: option.splits)

lemma setAuthenticationInfo_fields:
  "authInfo (setAuthenticationInfo a p) = Some a"
  "settings (setAuthenticationInfo a p) = settings p"
  "mode a = Some ''ChatGPTAPI'' \<Longrightarrow> truthy_string (apiKey a) \<Longrightarrow>
     chatGPTAPI (setAuthenticationInfo a p) = Some (ChatGPTAPI (the (apiKey a)))"
  "mode a = Some ''ChatGPTUnofficialProxyAPI'' \<Longrightarrow> truthy_string (accessToken a) \<Longrightarrow>
     truthy_string (proxyUrl a) \<Longrightarrow>
     chatGPTAPI (setAuthenticationInfo a p) =
       Some (ChatGPTUnofficialProxyAPI (the (accessToken a)) (the (proxyUrl a)))"
  by (simp_all add: setAuthenticationInfo_def newAPI_def Let_def)

lemma setSettings_one:
  "setSettings (no_patch\<lparr>selectedInsideCodeblock := Some b\<rparr>) p =
     p\<lparr>settings := (settings p)\<lparr>selectedInsideCodeblock := Some b\<rparr>\<rparr>"
  "setSettings (no_patch\<lparr>keepConversation := Some b\<rparr>) p =
     p\<lparr>settings := (settings p)\<lparr>keepConversation := Some b\<rparr>\<rparr>"
  "setSettings (no_patch\<lparr>timeoutLength := Some n\<rparr>) p =
     p\<lparr>settings := (settings p)\<lparr>timeoutLength := Some n\<rparr>\<rparr>"
  by (simp_all add: setSettings_def no_patch_def merge_field_def)

text \<open>
  C9. A configuration change that affects only \<^verbatim>\<open>selectedInsideCodeblock\<close>, only
  \<^verbatim>\<open>keepConversation\<close> or only \<^verbatim>\<open>timeoutLength\<close> changes that one field of the
  settings and nothing else of the provider: the other settings, the backend, the
  conversation, the message number, the prompt and the response stay as they were. A change
  that affects \<^verbatim>\<open>mode\<close>, \<^verbatim>\<open>apiKey\<close>, \<^verbatim>\<open>accessToken\<close> or \<^verbatim>\<open>proxyUrl\<close> runs
  \<^verbatim>\<open>setAuthenticationInfo\<close> (and so \<^verbatim>\<open>_newAPI\<close>) on the new authentication info and
  then \<^verbatim>\<open>resetConversation\<close>: the backend is the one built from the new info when that
  is complete, the conversation is cleared, the message number is 0, and prompt and response
  are empty.
\<close>

theorem config_change_frame:
  "(event = {SelectedInsideCodeblock} \<longrightarrow>
      onDidChangeConfiguration c event p =
        p\<lparr>settings := (settings p)\<lparr>selectedInsideCodeblock :=
                                       Some (or_false (cfg_selectedInsideCodeblock c))\<rparr>\<rparr>)
   \<and> (event = {KeepConversation} \<longrightarrow>
      onDidChangeConfiguration c event p =
        p\<lparr>settings := (settings p)\<lparr>keepConversation :=
                                       Some (or_false (cfg_keepConversation c))\<rparr>\<rparr>)
   \<and> (event = {TimeoutLength} \<longrightarrow>
      onDidChangeConfiguration c event p =
        p\<lparr>settings := (settings p)\<lparr>timeoutLength :=
                                       Some (or_number (cfg_timeoutLength c) 60)\<rparr>\<rparr>)
   \<and> (k \<in> {Mode, ApiKey, AccessToken, ProxyUrl} \<and> k \<in> event \<longrightarrow>
      onDidChangeConfiguration c event p =
        resetConversation (setAuthenticationInfo (auth_of_config c) p)
      \<and> authInfo (onDidChangeConfiguration c event p) = Some (auth_of_config c)
      \<and> (mode (auth_of_config c) = Some ''ChatGPTAPI'' \<and> truthy_string (apiKey (auth_of_config c)) \<longrightarrow>
           chatGPTAPI (onDidChangeConfiguration c event p) =
             Some (ChatGPTAPI (the (apiKey (auth_of_config c)))))
      \<and> (mode (auth_of_config c) = Some ''ChatGPTUnofficialProxyAPI'' \<and>
           truthy_string (accessToken (auth_of_config c)) \<and>
           truthy_string (proxyUrl (auth_of_config c)) \<longrightarrow>
           chatGPTAPI (onDidChangeConfiguration c event p) =
             Some (ChatGPTUnofficialProxyAPI (the (accessToken (auth_of_config c)))
                     (the (proxyUrl (auth_of_config c)))))
      \<and> conversation (onDidChangeConfiguration c event p) = None
      \<and> currentMessageNumber (onDidChangeConfiguration c event p) = 0
      \<and> prompt (onDidChangeConfiguration c event p) = Some []
      \<and> response (onDidChangeConfiguration c event p) = Some []
      \<and> fullPrompt (onDidChangeConfiguration c event p) = Some []
      \<and> settings (onDidChangeConfiguration c event p) = settings p)"
proof (intro conjI)
  show "event = {SelectedInsideCodeblock} \<longrightarrow>
      onDidChangeConfiguration c event p =
        p\<lparr>settings := (settings p)\<lparr>selectedInsideCodeblock :=
                                       Some (or_false (cfg_selectedInsideCodeblock c))\<rparr>\<rparr>"
    by (simp add: onDidChangeConfiguration_def affectsConfiguration_def setSettings_one)
  show "event = {KeepConversation} \<longrightarrow>
      onDidChangeConfiguration c event p =
        p\<lparr>settings := (settings p)\<lparr>keepConversation :=
                                       Some (or_false (cfg_keepConversation c))\<rparr>\<rparr>"
    by (simp add: onDidChangeConfiguration_def affectsConfiguration_def setSettings_one)
  show "event = {TimeoutLength} \<longrightarrow>
      onDidChangeConfiguration c event p =
        p\<lparr>settings := (settings p)\<lparr>timeoutLength :=
                                       Some (or_number (cfg_timeoutLength c) 60)\<rparr>\<rparr>"
    by (simp add: onDidChangeConfiguration_def affectsConfiguration_def setSettings_one)
  show "k \<in> {Mode, ApiKey, AccessToken, ProxyUrl} \<and> k \<in> event \<longrightarrow>
      onDidChangeConfiguration c event p =
        resetConversation (setAuthenticationInfo (auth_of_config c) p)
      \<and> authInfo (onDidChangeConfiguration c event p) = Some (auth_of_config c)
      \<and> (mode (auth_of_config c) = Some ''ChatGPTAPI'' \<and> truthy_string (apiKey (auth_of_config c)) \<longrightarrow>
           chatGPTAPI (onDidChangeConfiguration c event p) =
             Some (ChatGPTAPI (the (apiKey (auth_of_config c)))))
      \<and> (mode (auth_of_config c) = Some ''ChatGPTUnofficialProxyAPI'' \<and>
           truthy_string (accessToken (auth_of_config c)) \<and>
           truthy_string (proxyUrl (auth_of_config c)) \<longrightarrow>
           chatGPTAPI (onDidChangeConfiguration c event p) =
             Some (ChatGPTUnofficialProxyAPI (the (accessToken (auth_of_config c)))
                     (the (proxyUrl (auth_of_config c)))))
      \<and> conversation (onDidChangeConfiguration c event p) = None
      \<and> currentMessageNumber (onDidChangeConfiguration c event p) = 0
      \<and> prompt (onDidChangeConfiguration c event p) = Some []
      \<and> response (onDidChangeConfiguration c event p) = Some []
      \<and> fullPrompt (onDidChangeConfiguration c event p) = Some []
      \<and> settings (onDidChangeConfiguration c event p) = settings p"
  proof
    assume "k \<in> {Mode, ApiKey, AccessToken, ProxyUrl} \<and> k \<in> event"
    then have "affectsConfiguration event Mode \<or> affectsConfiguration event ApiKey \<or>
         affectsConfiguration event AccessToken \<or> affectsConfiguration event ProxyUrl"
      unfolding affectsConfiguration_def by blast
    then have eq: "onDidChangeConfiguration c event p =
        resetConversation (setAuthenticationInfo (auth_of_config c) p)"
      unfolding onDidChangeConfiguration_def by (rule if_P)
    show "onDidChangeConfiguration c event p =
        resetConversation (setAuthenticationInfo (auth_of_config c) p)
      \<and> authInfo (onDidChangeConfiguration c event p) = Some (auth_of_config c)
      \<and> (mode (auth_of_config c) = Some ''ChatGPTAPI'' \<and> truthy_string (apiKey (auth_of_config c)) \<longrightarrow>
           chatGPTAPI (onDidChangeConfiguration c event p) =
             Some (ChatGPTAPI (the (apiKey (auth_of_config c)))))
      \<and> (mode (auth_of_config c) = Some ''ChatGPTUnofficialProxyAPI'' \<and>
           truthy_string (accessToken (auth_of_config c)) \<and>
           truthy_string (proxyUrl (auth_of_config c)) \<longrightarrow>
           chatGPTAPI (onDidChangeConfiguration c event p) =
             Some (ChatGPTUnofficialProxyAPI (the (accessToken (auth_of_config c)))
                     (the (proxyUrl (auth_of_config c)))))
      \<and> conversation (onDidChangeConfiguration c event p) = None
      \<and> currentMessageNumber (onDidChangeConfiguration c event p) = 0
      \<and> prompt (onDidChangeConfiguration c event p) = Some []
      \<and> response (onDidChangeConfiguration c event p) = Some []
      \<and> fullPrompt (onDidChangeConfiguration c event p) = Some []
      \<and> settings (onDidChangeConfiguration c event p) = settings p"
      unfolding eq
      by (simp add: resetConversation_fields setAuthenticationInfo_fields)
  qed
qed

theorem config_change_frame_witness:
  "onDidChangeConfiguration cfg_forget {KeepConversation} (activate cfg_key1) =
     (activate cfg_key1)\<lparr>settings := (settings (activate cfg_key1))\<lparr>keepConversation := Some False\<rparr>\<rparr>
   \<and> onDidChangeConfiguration cfg_key1 {SelectedInsideCodeblock} (activate cfg_key1) =
     (activate cfg_key1)\<lparr>settings := (settings (activate cfg_key1))\<lparr>selectedInsideCodeblock := Some False\<rparr>\<rparr>
   \<and> onDidChangeConfiguration cfg_unset {TimeoutLength} (activate cfg_key1) =
     (activate cfg_key1)\<lparr>settings := (settings (activate cfg_key1))\<lparr>timeoutLength := Some 60\<rparr>\<rparr>
   \<and> chatGPTAPI (onDidChangeConfiguration cfg_key2 {ApiKey} (activate cfg_key1)) =
       Some (ChatGPTAPI ''k2'')
   \<and> conversation (onDidChangeConfiguration cfg_key2 {ApiKey} (activate cfg_key1)) = None
   \<and> currentMessageNumber (onDidChangeConfiguration cfg_key2 {ApiKey} (activate cfg_key1)) = 0
   \<and> chatGPTAPI (onDidChangeConfiguration cfg_proxy {Mode, AccessToken, ProxyUrl} (activate cfg_key1)) =
       Some (ChatGPTUnofficialProxyAPI ''t'' ''https://proxy.example/api'')"
proof -
  have a: "onDidChangeConfiguration cfg_forget {KeepConversation} (activate cfg_key1) =
     (activate cfg_key1)\<lparr>settings := (settings (activate cfg_key1))\<lparr>keepConversation := Some False\<rparr>\<rparr>"
    using config_change_frame [of "{KeepConversation}" cfg_forget "activate cfg_key1" Mode]
    by (simp add: cfg_forget_def cfg_key1_def or_false_def)
  have b: "onDidChangeConfiguration cfg_key1 {SelectedInsideCodeblock} (activate cfg_key1) =
     (activate cfg_key1)\<lparr>settings := (settings (activate cfg_key1))\<lparr>selectedInsideCodeblock := Some False\<rparr>\<rparr>"
    using config_change_frame [of "{SelectedInsideCodeblock}" cfg_key1 "activate cfg_key1" Mode]
    by (simp add: cfg_key1_def or_false_def)
  have c: "onDidChangeConfiguration cfg_unset {TimeoutLength} (activate cfg_key1) =
     (activate cfg_key1)\<lparr>settings := (settings (activate cfg_key1))\<lparr>timeoutLength := Some 60\<rparr>\<rparr>"
    using config_change_frame [of "{TimeoutLength}" cfg_unset "activate cfg_key1" Mode]
    by (simp add: cfg_unset_def or_number_def)
  have k2: "mode (auth_of_config cfg_key2) = Some ''ChatGPTAPI''"
    "truthy_string (apiKey (auth_of_config cfg_key2))" "the (apiKey (auth_of_config cfg_key2)) = ''k2''"
    by (simp_all add: cfg_key2_def cfg_key1_def auth_of_config_def truthy_string_def)
  have d: "chatGPTAPI (onDidChangeConfiguration cfg_key2 {ApiKey} (activate cfg_key1)) =
       Some (ChatGPTAPI ''k2'')
   \<and> conversation (onDidChangeConfiguration cfg_key2 {ApiKey} (activate cfg_key1)) = None
   \<and> currentMessageNumber (onDidChangeConfiguration cfg_key2 {ApiKey} (activate cfg_key1)) = 0"
  proof -
    have pre: "ApiKey \<in> {Mode, ApiKey, AccessToken, ProxyUrl} \<and> ApiKey \<in> {ApiKey}"
      by simp
    note r = config_change_frame [of "{ApiKey}" cfg_key2 "activate cfg_key1" ApiKey,
        THEN conjunct2, THEN conjunct2, THEN conjunct2, THEN mp, OF pre]
    from r k2(1,2)
    have "chatGPTAPI (onDidChangeConfiguration cfg_key2 {ApiKey} (activate cfg_key1)) =
       Some (ChatGPTAPI (the (apiKey (auth_of_config cfg_key2))))"
      by blast
    moreover from r
    have "conversation (onDidChangeConfiguration cfg_key2 {ApiKey} (activate cfg_key1)) = None"
      "currentMessageNumber (onDidChangeConfiguration cfg_key2 {ApiKey} (activate cfg_key1)) = 0"
      by blast+
    ultimately show ?thesis
      by (simp only: k2(3))
  qed
  have px: "mode (auth_of_config cfg_proxy) = Some ''ChatGPTUnofficialProxyAPI''"
    "truthy_string (accessToken (auth_of_config cfg_proxy))"
    "truthy_string (proxyUrl (auth_of_config cfg_proxy))"
    "the (accessToken (auth_of_config cfg_proxy)) = ''t''"
    "the (proxyUrl (auth_of_config cfg_proxy)) = ''https://proxy.example/api''"
    by (simp_all add: cfg_proxy_def cfg_unset_def auth_of_config_def truthy_string_def)
  have e: "chatGPTAPI (onDidChangeConfiguration cfg_proxy {Mode, AccessToken, ProxyUrl} (activate cfg_key1)) =
       Some (ChatGPTUnofficialProxyAPI ''t'' ''https://proxy.example/api'')"
  proof -
    have pre: "Mode \<in> {Mode, ApiKey, AccessToken, ProxyUrl} \<and> Mode \<in> {Mode, AccessToken, ProxyUrl}"
      by simp
    note r = config_change_frame [of "{Mode, AccessToken, ProxyUrl}" cfg_proxy "activate cfg_key1" Mode,
        THEN conjunct2, THEN conjunct2, THEN conjunct2, THEN mp, OF pre]
    from r px(1,2,3)
    have "chatGPTAPI (onDidChangeConfiguration cfg_proxy {Mode, AccessToken, ProxyUrl} (activate cfg_key1)) =
       Some (ChatGPTUnofficialProxyAPI (the (accessToken (auth_of_config cfg_proxy)))
                     (the (proxyUrl (auth_of_config cfg_proxy))))"
      by blast
    then show ?thesis
      by (simp only: px(4,5))
  qed
  from a b c d e show ?thesis by blast
qed

section \<open>Progress while the view is hidden (C10)\<close>

text \<open>
  C10. A chunk reported by the call whose message number is the current one is posted to the
  view and becomes the accumulated response exactly when the view exists and is visible.
  When there is no view or the view is hidden, the chunk changes neither the provider nor
  the accumulated response, so a failure after it gives the old partial text followed by
  the error trailer.
\<close>

theorem progress_only_when_visible:
  assumes "currentMessageNumber p = req_messageNumber r"
  shows "(view p = Some v \<and> visible v \<longrightarrow>
            onProgress m r p =
              (r\<lparr>req_response := res_text m\<rparr>,
               p\<lparr>webviewLog := webviewLog p @ [PostMessage (AddResponse (res_text m))]\<rparr>))
       \<and> (view p = None \<or> (view p = Some v \<and> \<not> visible v) \<longrightarrow>
            onProgress m r p = (r, p)
            \<and> fst (sendMessage_rejected e (fst (onProgress m r p)) (snd (onProgress m r p)))
                = req_response r @ error_trailer e)"
proof (intro conjI impI)
  assume "view p = Some v \<and> visible v"
  with assms show "onProgress m r p =
              (r\<lparr>req_response := res_text m\<rparr>,
               p\<lparr>webviewLog := webviewLog p @ [PostMessage (AddResponse (res_text m))]\<rparr>)"
    by (simp add: onProgress_def postMessage_def)
next
  assume h: "view p = None \<or> (view p = Some v \<and> \<not> visible v)"
  with assms show same: "onProgress m r p = (r, p)"
    by (auto simp: onProgress_def)
  show "fst (sendMessage_rejected e (fst (onProgress m r p)) (snd (onProgress m r p)))
                = req_response r @ error_trailer e"
    unfolding same by (simp add: sendMessage_rejected_def Let_def)
qed

theorem progress_only_when_visible_witness:
  "currentMessageNumber (asking_A shown_view) = req_messageNumber call_A
   \<and> view (asking_A shown_view) = Some shown_view \<and> visible shown_view
   \<and> onProgress partial_A call_A (asking_A shown_view) =
       (call_A\<lparr>req_response := res_text partial_A\<rparr>,
        (asking_A shown_view)\<lparr>webviewLog :=
           webviewLog (asking_A shown_view) @ [PostMessage (AddResponse (res_text partial_A))]\<rparr>)
   \<and> currentMessageNumber (asking_A hidden_view) = req_messageNumber call_A
   \<and> view (asking_A hidden_view) = Some hidden_view \<and> \<not> visible hidden_view
   \<and> onProgress partial_A call_A (asking_A hidden_view) = (call_A, asking_A hidden_view)
   \<and> fst (sendMessage_rejected ''Error: timed out''
            (fst (onProgress partial_A call_A (asking_A hidden_view)))
            (snd (onProgress partial_A call_A (asking_A hidden_view))))
       = req_response call_A @ error_trailer ''Error: timed out''"
proof -
  have n: "currentMessageNumber (asking_A shown_view) = req_messageNumber call_A"
    "currentMessageNumber (asking_A hidden_view) = req_messageNumber call_A"
    by (simp_all add: asking_A_def call_A_def run_defs)
  have v: "view (asking_A shown_view) = Some shown_view \<and> visible shown_view"
    by (simp add: asking_A_def run_defs)
  have h: "view (asking_A hidden_view) = Some hidden_view \<and> \<not> visible hidden_view"
    by (simp add: asking_A_def run_defs)
  note shown = progress_only_when_visible [OF n(1), of shown_view partial_A,
      THEN conjunct1, THEN mp, OF v]
  note hidden = progress_only_when_visible [OF n(2), of hidden_view partial_A "''Error: timed out''",
      THEN conjunct2, THEN mp, OF disjI2, OF h]
  from n v h shown hidden show ?thesis by blast
qed

section \<open>What settling a call does\<close>

text \<open>
  Neither continuation of \<^verbatim>\<open>sendMessage\<close> nor \<^verbatim>\<open>abort\<close> assigns the field
  \<^verbatim>\<open>_workingState\<close>: they post \<^verbatim>\<open>setWorkingState\<close> to the view themselves instead of
  calling \<^verbatim>\<open>_setWorkingState\<close>, which sets the field and posts it. A call whose message
  number is no longer the current one posts \<open>Idle\<close> when it resolves and does nothing
  else, and its progress is dropped.
\<close>

lemma settlement_keeps_workingState:
  "workingState (snd (sendMessage_fulfilled res r p)) = workingState p"
  "workingState (snd (sendMessage_rejected e r p)) = workingState p"
  "workingState (abort p) = workingState p"
  by (simp_all add: sendMessage_fulfilled_def sendMessage_rejected_def abort_def saveAndShow_def
      postMessage_def showView_def Let_def split: option.splits)

lemma stale_fulfilled:
  "currentMessageNumber p \<noteq> req_messageNumber r \<Longrightarrow>
     sendMessage_fulfilled res r p = ([], postMessage (SetWorkingState Idle) p)"
  by (simp add: sendMessage_fulfilled_def postMessage_def Let_def split: option.splits)

lemma stale_progress:
  "currentMessageNumber p \<noteq> req_messageNumber r \<Longrightarrow> onProgress m r p = (r, p)"
  by (simp add: onProgress_def)

lemma rejected_response:
  "fst (sendMessage_rejected e r p) = req_response r @ ''\<newline>\<newline>---\<newline>[ERROR] '' @ e"
  "response (snd (sendMessage_rejected e r p)) = Some (req_response r @ error_trailer e)"
  "webviewLog (snd (sendMessage_rejected e r p)) =
     webviewLog p @
       (if view p = None then []
        else [PostMessage (SetWorkingState Idle), ShowView,
              PostMessage (AddResponse (req_response r @ error_trailer e))])"
  by (simp_all add: sendMessage_rejected_def saveAndShow_log Let_def error_trailer_def)
     (simp add: postMessage_def split: option.splits)

section \<open>The working state after a call settles (C1)\<close>

text \<open>
  C1. The claim: only the settlement of the newest message number takes the working state
  from \<open>Asking\<close> to \<open>Idle\<close>, an older call settling leaves the working state alone, and
  the transition shows in the field of the provider as well as in what the view is told.
  The source, in two runs from a provider with an API key and a visible view. One prompt is
  sent and answered: no call is left, the view was told \<open>Idle\<close>, the field is still
  \<open>Asking\<close>, and when the webview loads again it is told \<open>Asking\<close>. Two prompts are
  sent and the first is answered: the second call is still in flight, and the settlement of
  the first tells the view \<open>Idle\<close>.
\<close>

theorem settlement_working_state:
  "workingState (prov (run [open_view, send_A, Fulfilled 0 answer_A] (start cfg_key1))) = Asking
   \<and> calls (run [open_view, send_A, Fulfilled 0 answer_A] (start cfg_key1)) = [None]
   \<and> shown_state (webviewLog (prov (run [open_view, send_A, Fulfilled 0 answer_A] (start cfg_key1))))
       = Some Idle
   \<and> shown_state (webviewLog (prov (run [open_view, send_A, Fulfilled 0 answer_A, WebviewLoaded]
        (start cfg_key1)))) = Some Asking
   \<and> call_at (run [open_view, send_A, send_B, Fulfilled 0 answer_A] (start cfg_key1)) 1 \<noteq> None
   \<and> webviewLog (prov (run [open_view, send_A, send_B, Fulfilled 0 answer_A] (start cfg_key1))) =
       webviewLog (prov (run [open_view, send_A, send_B] (start cfg_key1)))
         @ [PostMessage (SetWorkingState Idle)]
   \<and> shown_state (webviewLog (prov (run [open_view, send_A, send_B, Fulfilled 0 answer_A]
        (start cfg_key1)))) = Some Idle"
  by (simp add: run_defs)

section \<open>Output of a superseded prompt (C2)\<close>

text \<open>
  C2. The claim: once prompt B was sent while prompt A was in flight, nothing of A reaches
  the view any more. The source: the \<^verbatim>\<open>catch\<close> block does not compare message numbers.
  With B in flight, A failing posts \<open>Idle\<close>, shows the view and posts A's error text as the
  response, which it also stores; and A resolving posts \<open>Idle\<close>, since the comparison of
  the message numbers comes after that message.
\<close>

theorem superseded_prompt_output:
  "call_at (run [open_view, send_A, send_B, Rejected 0 ''Error: timed out''] (start cfg_key1)) 1
       \<noteq> None
   \<and> webviewLog (prov (run [open_view, send_A, send_B, Rejected 0 ''Error: timed out'']
        (start cfg_key1))) =
       webviewLog (prov (run [open_view, send_A, send_B] (start cfg_key1)))
         @ [PostMessage (SetWorkingState Idle), ShowView,
            PostMessage (AddResponse ''\<newline>\<newline>---\<newline>[ERROR] Error: timed out'')]
   \<and> response (prov (run [open_view, send_A, send_B, Rejected 0 ''Error: timed out'']
        (start cfg_key1))) = Some ''\<newline>\<newline>---\<newline>[ERROR] Error: timed out''
   \<and> webviewLog (prov (run [open_view, send_A, send_B, Fulfilled 0 answer_A] (start cfg_key1))) =
       webviewLog (prov (run [open_view, send_A, send_B] (start cfg_key1)))
         @ [PostMessage (SetWorkingState Idle)]"
  by (simp add: run_defs)

section \<open>A result that arrives after the backend was rebuilt (C3)\<close>

text \<open>
  C3. The claim: rebuilding the backend clears the conversation and sets the message number
  to 0, and the result of a call that was in flight then never overwrites the cleared
  conversation, also when prompts were sent after the rebuild. The source: the first half
  holds. But the rebuild makes the message numbers start again, so the first prompt after it
  gets the number 1 that the call in flight has: when that call, made to the backend of the
  old key, resolves, its conversation identifiers and its text are stored in the provider of
  the new backend.
\<close>

theorem stale_result_after_rebuild:
  "conversation (prov (run [open_view, send_A, ConfigChanged cfg_key2 {ApiKey}] (start cfg_key1)))
       = None
   \<and> currentMessageNumber (prov (run [open_view, send_A, ConfigChanged cfg_key2 {ApiKey}]
        (start cfg_key1))) = 0
   \<and> chatGPTAPI (prov (run [open_view, send_A, ConfigChanged cfg_key2 {ApiKey}] (start cfg_key1)))
       = Some (ChatGPTAPI ''k2'')
   \<and> map_option req_api
        (call_at (run [open_view, send_A, ConfigChanged cfg_key2 {ApiKey}, send_B] (start cfg_key1)) 0)
       = Some (ChatGPTAPI ''k1'')
   \<and> conversation (prov (run [open_view, send_A, ConfigChanged cfg_key2 {ApiKey}, send_B,
        Fulfilled 0 answer_A] (start cfg_key1)))
       = Some \<lparr> conversationId = Some ''c1'', parentMessageId = ''m1'' \<rparr>
   \<and> response (prov (run [open_view, send_A, ConfigChanged cfg_key2 {ApiKey}, send_B,
        Fulfilled 0 answer_A] (start cfg_key1))) = Some ''answer A''
   \<and> chatGPTAPI (prov (run [open_view, send_A, ConfigChanged cfg_key2 {ApiKey}, send_B,
        Fulfilled 0 answer_A] (start cfg_key1))) = Some (ChatGPTAPI ''k2'')"
  by (simp add: run_defs)

section \<open>The conversation after keepConversation is switched off (C4)\<close>

text \<open>
  C4. The claim: after an answer with \<^verbatim>\<open>keepConversation\<close> false the conversation is
  left cleared and the next call carries none, also when the setting went from true to false
  between two prompts. The source: an answer stores the identifiers when the setting is true
  and otherwise leaves the field as it is, and every call spreads the field into its
  options. After an answer under the setting true and the change to false, the second call
  carries the first conversation, the second answer leaves it in place, and the third call
  carries it again.
\<close>

theorem handle_after_keepConversation_off:
  "keepConversation (settings (prov (run [open_view, send_A, Fulfilled 0 answer_A,
        ConfigChanged cfg_forget {KeepConversation}] (start cfg_key1)))) = Some False
   \<and> map_option req_conversation
        (call_at (run [open_view, send_A, Fulfilled 0 answer_A,
           ConfigChanged cfg_forget {KeepConversation}, send_B] (start cfg_key1)) 1)
       = Some (Some \<lparr> conversationId = Some ''c1'', parentMessageId = ''m1'' \<rparr>)
   \<and> conversation (prov (run [open_view, send_A, Fulfilled 0 answer_A,
        ConfigChanged cfg_forget {KeepConversation}, send_B, Fulfilled 1 answer_B] (start cfg_key1)))
       = Some \<lparr> conversationId = Some ''c1'', parentMessageId = ''m1'' \<rparr>
   \<and> map_option req_conversation
        (call_at (run [open_view, send_A, Fulfilled 0 answer_A,
           ConfigChanged cfg_forget {KeepConversation}, send_B, Fulfilled 1 answer_B, send_C]
           (start cfg_key1)) 2)
       = Some (Some \<lparr> conversationId = Some ''c1'', parentMessageId = ''m1'' \<rparr>)"
  by (simp add: run_defs)

section \<open>A call that fails (C7)\<close>

text \<open>
  C7. The claim: when a call fails, the final response is the partial text followed by the
  error trailer, it is posted to the view, and the working state returns to \<open>Idle\<close>. The
  source, in the run where a prompt is sent, one chunk arrives and the call fails: the
  response and the last message are the chunk followed by the trailer and no call is left,
  but the field of the provider is still \<open>Asking\<close>, and when the webview loads again it is
  told \<open>Asking\<close>.
\<close>

theorem failure_working_state:
  "response (prov (run [open_view, send_A, Progress 0 partial_A, Rejected 0 ''Error: timed out'']
        (start cfg_key1))) = Some ''ans\<newline>\<newline>---\<newline>[ERROR] Error: timed out''
   \<and> last (webviewLog (prov (run [open_view, send_A, Progress 0 partial_A,
        Rejected 0 ''Error: timed out''] (start cfg_key1))))
       = PostMessage (AddResponse ''ans\<newline>\<newline>---\<newline>[ERROR] Error: timed out'')
   \<and> calls (run [open_view, send_A, Progress 0 partial_A, Rejected 0 ''Error: timed out'']
        (start cfg_key1)) = [None]
   \<and> workingState (prov (run [open_view, send_A, Progress 0 partial_A,
        Rejected 0 ''Error: timed out''] (start cfg_key1))) = Asking
   \<and> shown_state (webviewLog (prov (run [open_view, send_A, Progress 0 partial_A,
        Rejected 0 ''Error: timed out'', WebviewLoaded] (start cfg_key1)))) = Some Asking"
  by (simp add: run_defs)

section \<open>Abort (C8)\<close>

lemma abort_controller:
  "aborted (abort p) = insert (abortController p) (aborted p)"
  "abortController (abort p) = Suc (abortController p)"
  "webviewLog (abort p) =
     webviewLog p @ (if view p = None then [] else [PostMessage (SetWorkingState Idle)])"
  by (simp_all add: abort_def postMessage_def Let_def split: option.splits)

lemma ctl_postMessage [simp]:
  "aborted (postMessage m p) = aborted p" "abortController (postMessage m p) = abortController p"
  by (simp_all add: postMessage_def split: option.splits)

lemma ctl_saveAndShow [simp]:
  "aborted (snd (saveAndShow r p)) = aborted p"
  "abortController (snd (saveAndShow r p)) = abortController p"
  by (simp_all add: saveAndShow_def showView_def Let_def split: option.splits)

lemma ctl_newAPI [simp]:
  "aborted (newAPI p) = aborted p" "abortController (newAPI p) = abortController p"
  by (simp_all add: newAPI_def Let_def split: option.splits)

lemma ctl_resetConversation [simp]:
  "aborted (resetConversation p) = aborted p"
  "abortController (resetConversation p) = abortController p"
  by (simp_all add: resetConversation_def Let_def)

lemma ctl_onDidChangeConfiguration [simp]:
  "aborted (onDidChangeConfiguration c e p) = aborted p"
  "abortController (onDidChangeConfiguration c e p) = abortController p"
  by (simp_all add: onDidChangeConfiguration_def setAuthenticationInfo_def setSettings_def)

lemma ctl_sendMessageAndGetResponse [simp]:
  "aborted (snd (sendMessageAndGetResponse sp p)) = aborted p"
  "abortController (snd (sendMessageAndGetResponse sp p)) = abortController p"
  by (simp_all add: sendMessageAndGetResponse_def split_beta setWorkingState_def Let_def
      split: option.splits)

lemma ctl_searchSelection [simp]:
  "aborted (snd (searchSelection pr ed focus p)) = aborted p"
  "abortController (snd (searchSelection pr ed focus p)) = abortController p"
  by (simp_all add: searchSelection_def Let_def showView_def resolveWebviewView_def
      split: option.splits)

lemma ctl_onProgress [simp]:
  "aborted (snd (onProgress m r p)) = aborted p"
  "abortController (snd (onProgress m r p)) = abortController p"
  by (simp_all add: onProgress_def split: option.splits)

lemma ctl_fulfilled [simp]:
  "aborted (snd (sendMessage_fulfilled res r p)) = aborted p"
  "abortController (snd (sendMessage_fulfilled res r p)) = abortController p"
  by (simp_all add: sendMessage_fulfilled_def Let_def)

lemma ctl_rejected [simp]:
  "aborted (snd (sendMessage_rejected e r p)) = aborted p"
  "abortController (snd (sendMessage_rejected e r p)) = abortController p"
  by (simp_all add: sendMessage_rejected_def Let_def)

lemma cf_abort: "controller_fresh p \<Longrightarrow> controller_fresh (abort p)"
  by (auto simp: controller_fresh_def abort_controller less_Suc_eq)

lemma cf_step: "controller_fresh (prov s) \<Longrightarrow> controller_fresh (prov (step e s))"
proof (cases e)
  case AbortMessage
  then show "controller_fresh (prov s) \<Longrightarrow> ?thesis"
    by (simp add: cf_abort)
qed (simp_all add: controller_fresh_def dispatch_def resolveWebviewView_def split_beta
       split: dispatched.splits option.splits)

lemma cf_run: "controller_fresh (prov s) \<Longrightarrow> controller_fresh (prov (run es s))"
  by (induction es arbitrary: s) (simp_all add: cf_step)

lemma cf_reachable: "controller_fresh (prov (run es (start c)))"
  by (rule cf_run)
     (simp add: controller_fresh_def start_def activate_def setAuthenticationInfo_def
        setSettings_def init_provider_def)

lemma controller_never_signalled:
  "abortController (prov (run es (start c))) \<notin> aborted (prov (run es (start c)))"
  using cf_reachable [of es c] by (auto simp: controller_fresh_def)

text \<open>
  C8. The claim: \<^verbatim>\<open>abort\<close> forces the working state to \<open>Idle\<close>, fires the signal of
  the live controller and replaces the controller, so that the next call gets a signal that
  has not fired. The source, in the run where a prompt is sent and then aborted: the signal
  the call holds has fired, the next call gets the new controller's signal, which has not,
  and the view was told \<open>Idle\<close>; but the field of the provider is still \<open>Asking\<close>, and
  after the aborted call has failed and no call is left, a webview that loads again is told
  \<open>Asking\<close>.
\<close>

theorem abort_working_state:
  "aborted (prov (run [open_view, send_A, AbortMessage] (start cfg_key1))) = {0}
   \<and> map_option req_abortSignal (call_at (run [open_view, send_A, AbortMessage] (start cfg_key1)) 0)
       = Some 0
   \<and> abortController (prov (run [open_view, send_A, AbortMessage] (start cfg_key1))) = 1
   \<and> map_option req_abortSignal
        (call_at (run [open_view, send_A, AbortMessage, send_B] (start cfg_key1)) 1) = Some 1
   \<and> 1 \<notin> aborted (prov (run [open_view, send_A, AbortMessage, send_B] (start cfg_key1)))
   \<and> shown_state (webviewLog (prov (run [open_view, send_A, AbortMessage] (start cfg_key1))))
       = Some Idle
   \<and> workingState (prov (run [open_view, send_A, AbortMessage] (start cfg_key1))) = Asking
   \<and> calls (run [open_view, send_A, AbortMessage, Rejected 0 ''AbortError: aborted'']
        (start cfg_key1)) = [None]
   \<and> shown_state (webviewLog (prov (run [open_view, send_A, AbortMessage,
        Rejected 0 ''AbortError: aborted'', WebviewLoaded] (start cfg_key1)))) = Some Asking"
  by (simp add: run_defs)

end
